theory Spec2Isabelle
  imports Main
begin

section \<open>swagger-mcp: the transport and configuration resolver of main.go\<close>

text \<open>
  The entry point of swagger-mcp reads its command-line flags, validates the
  specification source and the base URL, arbitrates between the SSE and the
  StreamableHTTP transport, resolves the addresses of the active transport and
  assembles one \<open>models.Config\<close> that is handed to the server.
  Every \<open>log.Fatal\<close> of the source ends the process; here it is a value
  \<open>Inl e\<close> of a sum type, one constructor for each place that exits.
\<close>

subsection \<open>Fatal exits\<close>

datatype fatal =
    MissingSpecSource               \<comment> \<open>main, line 103: specUrl is empty\<close>
  | InvalidSpecUrl                  \<comment> \<open>main, line 109: url.ParseRequestURI failed\<close>
  | SpecFileNotFound                \<comment> \<open>main, line 114: os.Stat says the file does not exist\<close>
  | UnrecognizedSpecSourceScheme    \<comment> \<open>main, line 117: neither http://, https:// nor file://\<close>
  | InvalidBaseUrl                  \<comment> \<open>main, line 123\<close>
  | ConflictingTransportModes       \<comment> \<open>main, line 127: both --sse and --http\<close>
  | InvalidAddressFormat            \<comment> \<open>getHttpAddr line 26, getSseUrlAddr line 43\<close>
  | InvalidSseUrl                   \<comment> \<open>getSseUrlAddr, line 49: url.Parse failed\<close>
  | UnsupportedScheme               \<comment> \<open>getSseUrlAddr, line 66\<close>
  | MissingAddress                  \<comment> \<open>getSseUrlAddr, line 71\<close>
  | LoadSwaggerFailed               \<comment> \<open>main, line 141\<close>
  | PanicIndexOutOfRange            \<comment> \<open>a slice index past the end (parts[0], parts[1])\<close>

subsection \<open>The functions of package strings that the source calls\<close>

text \<open>\<open>strings.HasPrefix(s, prefix)\<close>: \<open>s\<close> is at least as long as the prefix and starts with it.\<close>

definition HasPrefix :: "string \<Rightarrow> string \<Rightarrow> bool" where
  "HasPrefix s pre = (take (length pre) s = pre)"

text \<open>\<open>strings.Contains(s, substr)\<close>: \<open>substr\<close> starts at some position of \<open>s\<close>.\<close>

fun Contains :: "string \<Rightarrow> string \<Rightarrow> bool" where
  "Contains [] substr = (substr = [])"
| "Contains (c # cs) substr = (HasPrefix (c # cs) substr \<or> Contains cs substr)"

text \<open>\<open>strings.TrimPrefix(s, prefix)\<close>: \<open>s\<close> without the prefix when it has it, else \<open>s\<close>.\<close>

definition TrimPrefix :: "string \<Rightarrow> string \<Rightarrow> string" where
  "TrimPrefix s pre = (if HasPrefix s pre then drop (length pre) s else s)"

text \<open>
  \<open>strings.Split(s, sep)\<close> for a separator of one byte (the source only splits at
  \<open>":"\<close>): the text before the first separator, then the split of the text after it;
  a string without separator is the only part.
\<close>

function Split :: "string \<Rightarrow> char \<Rightarrow> string list" where
  "Split s sep =
     (case dropWhile (\<lambda>c. c \<noteq> sep) s of
        [] \<Rightarrow> [s]
      | _ # rest \<Rightarrow> takeWhile (\<lambda>c. c \<noteq> sep) s # Split rest sep)"
  by pat_completeness auto
termination
proof (relation "measure (\<lambda>(s, sep). length s)")
  show "wf (measure (\<lambda>(s, sep). length s))" by simp
next
  fix s :: string and sep :: char and x rest
  assume "dropWhile (\<lambda>c. c \<noteq> sep) s = x # rest"
  moreover have "length (dropWhile (\<lambda>c. c \<noteq> sep) s) \<le> length s"
    by (rule length_dropWhile_le)
  ultimately show "((rest, sep), (s, sep)) \<in> measure (\<lambda>(s, sep). length s)"
    by simp
qed

subsection \<open>The environment: net/url, os and the swagger package\<close>

text \<open>
  Of the value that \<open>url.Parse\<close> returns the source reads the fields \<open>Scheme\<close> and
  \<open>Host\<close> (the host, with the port when the URL has one).
\<close>

record URL =
  Scheme :: string
  Host :: string

text \<open>
  The calls that leave main.go are parameters of the model:
  \<^item> \<open>url_Parse s\<close> is the URL that \<open>url.Parse(s)\<close> returns, \<open>None\<close> when it returns an error;
  \<^item> \<open>url_ParseRequestURI s\<close> holds when \<open>url.ParseRequestURI(s)\<close> returns no error;
  \<^item> \<open>os_Stat_IsNotExist p\<close> holds when \<open>os.IsNotExist\<close> is true of the error of \<open>os.Stat(p)\<close>;
  \<^item> \<open>swagger_LoadSwagger s\<close> holds when \<open>swagger.LoadSwagger(s)\<close> returns no error.
\<close>

record env =
  url_Parse :: "string \<Rightarrow> URL option"
  url_ParseRequestURI :: "string \<Rightarrow> bool"
  os_Stat_IsNotExist :: "string \<Rightarrow> bool"
  swagger_LoadSwagger :: "string \<Rightarrow> bool"

subsection \<open>getHttpAddr (lines 16 to 29)\<close>

definition getHttpAddr :: "string \<Rightarrow> fatal + string" where
  "getHttpAddr httpAddr =
     (if httpAddr = [] then Inr ''localhost:8080''
      else if HasPrefix httpAddr '':'' then Inr (''http://localhost'' @ httpAddr)
      else if \<not> Contains httpAddr '':'' then Inl InvalidAddressFormat
      else Inr httpAddr)"

subsection \<open>getSseUrlAddr (lines 31 to 74)\<close>

text \<open>
  Lines 51 to 57: the host and the port are the first two parts of \<open>u.Host\<close> split at
  every colon, when it has a colon; else the host is \<open>u.Host\<close> and the port is empty.
\<close>

definition host_port_parts :: "string \<Rightarrow> fatal + (string \<times> string)" where
  "host_port_parts h =
     (if Contains h '':'' then
        (case Split h (CHR '':'') of
           p0 # p1 # _ \<Rightarrow> Inr (p0, p1)
         | _ \<Rightarrow> Inl PanicIndexOutOfRange)
      else Inr (h, []))"

text \<open>Lines 59 to 68: an empty port is completed from the scheme.\<close>

definition complete_port :: "string \<Rightarrow> string \<Rightarrow> fatal + string" where
  "complete_port scheme port =
     (if port = [] then
        (if scheme = ''http'' then Inr ''80''
         else if scheme = ''https'' then Inr ''443''
         else Inl UnsupportedScheme)
      else Inr port)"

definition getSseUrlAddr ::
  "(string \<Rightarrow> URL option) \<Rightarrow> string \<Rightarrow> string \<Rightarrow> fatal + (string \<times> string)" where
  "getSseUrlAddr parse sseUrl sseAddr =
     (if sseAddr = [] \<and> sseUrl = [] then Inr (''http://localhost:8080'', ''localhost:8080'')
      else if sseAddr \<noteq> [] then
        (if HasPrefix sseAddr '':'' then Inr (''http://localhost'' @ sseAddr, sseAddr)
         else if \<not> Contains sseAddr '':'' then Inl InvalidAddressFormat
         else Inr (''http://'' @ sseAddr, sseAddr))
      else if sseUrl \<noteq> [] then
        (case parse sseUrl of
           None \<Rightarrow> Inl InvalidSseUrl
         | Some u \<Rightarrow>
             (case host_port_parts (Host u) of
                Inl e \<Rightarrow> Inl e
              | Inr (host, port) \<Rightarrow>
                  (case complete_port (Scheme u) port of
                     Inl e \<Rightarrow> Inl e
                   | Inr port' \<Rightarrow> Inr (sseUrl, host @ '':'' @ port'))))
      else Inl MissingAddress)"

subsection \<open>The flags and the configuration\<close>

text \<open>The flags that main declares (lines 79 to 97), each with its default.\<close>

record flags =
  specUrl :: string
  sseMode :: bool
  sseAddr :: string
  sseUrl :: string
  httpMode :: bool
  httpAddr :: string
  httpPath :: string
  baseUrl :: string
  includePaths :: string
  excludePaths :: string
  includeMethods :: string
  excludeMethods :: string
  security :: string
  basicAuth :: string
  bearerAuth :: string
  apiKeyAuth :: string
  headers :: string
  sseHeaders :: string
  httpHeaders :: string

definition default_flags :: flags where
  "default_flags =
     \<lparr>specUrl = [], sseMode = False, sseAddr = [], sseUrl = [],
      httpMode = False, httpAddr = [], httpPath = [], baseUrl = [],
      includePaths = [], excludePaths = [], includeMethods = [], excludeMethods = [],
      security = [], basicAuth = [], bearerAuth = [], apiKeyAuth = [],
      headers = [], sseHeaders = [], httpHeaders = []\<rparr>"

text \<open>
  \<open>models.Config\<close> and its three parts, with the fields that the composite literal of
  main (lines 145 to 171) sets.
\<close>

record SseConfig =
  SseMode :: bool
  SseAddr :: string
  SseUrl :: string
  SseHeaders :: string

record HttpConfig =
  HttpMode :: bool
  HttpAddr :: string
  HttpPath :: string
  HttpHeaders :: string

record ApiConfig =
  BaseUrl :: string
  IncludePaths :: string
  ExcludePaths :: string
  IncludeMethods :: string
  ExcludeMethods :: string
  Security :: string
  BasicAuth :: string
  ApiKeyAuth :: string
  BearerAuth :: string
  Headers :: string

record Config =
  SpecUrl :: string
  SseCfg :: SseConfig
  HttpCfg :: HttpConfig
  ApiCfg :: ApiConfig

subsection \<open>main (lines 76 to 185)\<close>

text \<open>Lines 101 to 118: the checks of the specification source; \<open>None\<close> when they pass.\<close>

definition validate_spec :: "env \<Rightarrow> string \<Rightarrow> fatal option" where
  "validate_spec e spec =
     (if spec = [] then Some MissingSpecSource
      else if HasPrefix spec ''http://'' \<or> HasPrefix spec ''https://'' then
        (if url_ParseRequestURI e spec then None else Some InvalidSpecUrl)
      else if HasPrefix spec ''file://'' then
        (if os_Stat_IsNotExist e (TrimPrefix spec ''file://'') then Some SpecFileNotFound
         else None)
      else Some UnrecognizedSpecSourceScheme)"

text \<open>Lines 120 to 125: the check of the base URL.\<close>

definition validate_baseUrl :: "string \<Rightarrow> fatal option" where
  "validate_baseUrl b =
     (if b \<noteq> [] \<and> \<not> HasPrefix b ''http://'' \<and> \<not> HasPrefix b ''https://''
      then Some InvalidBaseUrl else None)"

text \<open>Lines 126 to 128: the two transport modes exclude each other.\<close>

definition validate_modes :: "bool \<Rightarrow> bool \<Rightarrow> fatal option" where
  "validate_modes sse http = (if sse \<and> http then Some ConflictingTransportModes else None)"

text \<open>
  Lines 130 to 171, what main does once the three checks have passed: the addresses
  of the active transport (the four \<open>final\<close> variables start empty), the load of the
  specification, and the configuration.
\<close>

definition resolve_and_assemble :: "env \<Rightarrow> flags \<Rightarrow> fatal + Config" where
  "resolve_and_assemble e f =
     (case (if sseMode f then getSseUrlAddr (url_Parse e) (sseUrl f) (sseAddr f)
            else Inr ([], [])) of
        Inl x \<Rightarrow> Inl x
      | Inr (finalSseUrl, finalSseAddr) \<Rightarrow>
          (case (if httpMode f then getHttpAddr (httpAddr f) else Inr []) of
             Inl x \<Rightarrow> Inl x
           | Inr finalHttpAddr \<Rightarrow>
               (if \<not> swagger_LoadSwagger e (specUrl f) then Inl LoadSwaggerFailed
                else Inr
                  \<lparr>SpecUrl = specUrl f,
                   SseCfg = \<lparr>SseMode = sseMode f, SseAddr = finalSseAddr,
                             SseUrl = finalSseUrl, SseHeaders = sseHeaders f\<rparr>,
                   HttpCfg = \<lparr>HttpMode = httpMode f, HttpAddr = finalHttpAddr,
                              HttpPath = (if httpMode f \<and> httpPath f = [] then ''/mcp'' else []),
                              HttpHeaders = httpHeaders f\<rparr>,
                   ApiCfg = \<lparr>BaseUrl = baseUrl f,
                             IncludePaths = includePaths f, ExcludePaths = excludePaths f,
                             IncludeMethods = includeMethods f, ExcludeMethods = excludeMethods f,
                             Security = security f, BasicAuth = basicAuth f,
                             ApiKeyAuth = apiKeyAuth f, BearerAuth = bearerAuth f,
                             Headers = headers f\<rparr>\<rparr>)))"

text \<open>
  main: the configuration that reaches \<open>mcpserver.CreateServer\<close>, or the exit that
  comes first.
\<close>

definition main :: "env \<Rightarrow> flags \<Rightarrow> fatal + Config" where
  "main e f =
     (case validate_spec e (specUrl f) of
        Some x \<Rightarrow> Inl x
      | None \<Rightarrow>
          (case validate_baseUrl (baseUrl f) of
             Some x \<Rightarrow> Inl x
           | None \<Rightarrow>
               (case validate_modes (sseMode f) (httpMode f) of
                  Some x \<Rightarrow> Inl x
                | None \<Rightarrow> resolve_and_assemble e f)))"

section \<open>Properties\<close>

subsection \<open>The default pair of the SSE resolver\<close>

text \<open>
  C6: when the listen address and the dialable URL are both empty, getSseUrlAddr
  returns exactly the pair ("http://localhost:8080", "localhost:8080"), whatever
  the URL parser is.
\<close>

theorem getSseUrlAddr_both_empty:
  "getSseUrlAddr parse [] [] = Inr (''http://localhost:8080'', ''localhost:8080'')"
  by (simp add: getSseUrlAddr_def)

end
